theory Spec2Isabelle
  imports Complex_Main
begin

section \<open>Data model (server/models: Station, User)\<close>

text \<open>
  Documents of the two Mongoose collections. An ObjectId is an opaque value, a Date is
  its number of milliseconds since the epoch, a JavaScript Number is a real (rounding
  is not modelled; the properties below use only the order, \<open>max\<close> and one
  addition). A schema path without \<open>required\<close> may be absent: an option.
  Fields that no modelled function reads (coordinates, opening hours, services,
  credentials) are left out.
\<close>

type_synonym oid = nat
type_synonym timestamp = int

datatype fuel_type = Gasoline95 | Gasoline98 | Diesel

record fuel =
  price :: "real option"
  lastUpdated :: "timestamp option"

record fuelTypes =
  gasoline95 :: fuel
  gasoline98 :: fuel
  diesel :: fuel

record station =
  station_id :: oid
  name :: string
  address :: string
  city :: string
  brand :: string
  fuelTypes :: fuelTypes
  isActive :: bool
  lastScraped :: "timestamp option"

record priceAlert =
  alert_id :: oid
  stationId :: oid
  fuelType :: fuel_type
  targetPrice :: real
  alertIsActive :: bool
  lastTriggered :: "timestamp option"

record user =
  user_id :: oid
  email :: string
  firstName :: string
  favoriteStations :: "oid list"
  priceAlerts :: "priceAlert list"
  emailNotifications :: bool

text \<open>\<open>station.fuelTypes[key]\<close> for a key of the schema's enumeration.\<close>

fun fuelOf :: "fuel_type \<Rightarrow> fuelTypes \<Rightarrow> fuel" where
  "fuelOf Gasoline95 fts = gasoline95 fts"
| "fuelOf Gasoline98 fts = gasoline98 fts"
| "fuelOf Diesel fts = diesel fts"

fun setFuel :: "fuel_type \<Rightarrow> fuel \<Rightarrow> fuelTypes \<Rightarrow> fuelTypes" where
  "setFuel Gasoline95 f fts = fts\<lparr>gasoline95 := f\<rparr>"
| "setFuel Gasoline98 f fts = fts\<lparr>gasoline98 := f\<rparr>"
| "setFuel Diesel f fts = fts\<lparr>diesel := f\<rparr>"

text \<open>
  JavaScript truthiness of a price, as tested by \<open>if (x?.price)\<close> and
  \<open>currentPrice && ...\<close>: an absent price and the number zero are both falsy.
\<close>

fun truthy :: "real option \<Rightarrow> bool" where
  "truthy None = False"
| "truthy (Some p) = (p \<noteq> 0)"

text \<open>\<open>Model.findById\<close>: the document of the collection with that id, if any.\<close>

definition findStation :: "oid \<Rightarrow> station list \<Rightarrow> station option" where
  "findStation i sts = find (\<lambda>s. station_id s = i) sts"

definition findUser :: "oid \<Rightarrow> user list \<Rightarrow> user option" where
  "findUser i us = find (\<lambda>u. user_id u = i) us"

section \<open>Effects of the background pipeline (server/cron/scheduler.js)\<close>

text \<open>
  What the pipeline cannot decide itself is read from an environment: the clock
  (\<open>new Date()\<close>, \<open>Date.now()\<close>; one pass runs at the instant \<open>now\<close>), the
  value \<open>Math.random()\<close> returns in the iteration for the \<open>k\<close>-th document of the
  station collection, and whether \<open>save()\<close> of the \<open>k\<close>-th station or user
  document, or \<open>transporter.sendMail\<close> for the \<open>k\<close>-th user, throws. The two
  queries (\<open>Station.find\<close>, \<open>User.find\<close>) are taken to succeed. A collection is
  the list of its documents, each with an id of its own; a document is saved in place.
\<close>

record env =
  now :: timestamp
  random :: "nat \<Rightarrow> real"
  stationSaveFails :: "nat \<Rightarrow> bool"
  userSaveFails :: "nat \<Rightarrow> bool"
  mailFails :: "nat \<Rightarrow> bool"

datatype error = SaveError | MailError | ReferenceError string | TypeError | CastError

text \<open>
  A line of the console: \<open>console.log\<close> of a message (with the number it
  interpolates, where it does), \<open>console.error\<close> of a message and the error
  caught. Messages are kept without their pictograms.
\<close>

datatype log_entry = LogInfo string | LogCount string nat | LogError string error

text \<open>One entry of \<open>triggeredAlerts\<close>, and one mail handed to the transport.\<close>

record triggered =
  stationName :: string
  stationAddress :: string
  triggeredFuelType :: fuel_type
  currentPrice :: real
  triggeredTargetPrice :: real

record mail =
  mailTo :: string
  mailAlerts :: "triggered list"

record effects =
  mails :: "mail list"
  logs :: "log_entry list"

record world =
  stations :: "station list"
  users :: "user list"
  outbox :: "mail list"
  console :: "log_entry list"

subsection \<open>Price Mutator: the body of the loop of scrapeFuelPrices\<close>

text \<open>
  One guarded block of the loop body:
  \<open>if (f?.price) { f.price = Math.max(floor, f.price + variation); f.lastUpdated = new Date() }\<close>.
\<close>

definition mutateFuel :: "real \<Rightarrow> real \<Rightarrow> timestamp \<Rightarrow> fuel \<Rightarrow> fuel" where
  "mutateFuel lowest variation t f =
     (case price f of
        None \<Rightarrow> f
      | Some p \<Rightarrow>
          if p \<noteq> 0 then f\<lparr>price := Some (max lowest (p + variation)), lastUpdated := Some t\<rparr>
          else f)"

text \<open>
  The loop body for one station; \<open>r\<close> is the value of \<open>Math.random()\<close>. The
  variation is computed once and used in all three blocks.
\<close>

definition scrapeStation :: "real \<Rightarrow> timestamp \<Rightarrow> station \<Rightarrow> station" where
  "scrapeStation r t s =
     (let variation = (r - 0.5) * 0.20;
          fts = fuelTypes s;
          fts1 = fts\<lparr>gasoline95 := mutateFuel 6.0 variation t (gasoline95 fts)\<rparr>;
          fts2 = fts1\<lparr>gasoline98 := mutateFuel 6.2 variation t (gasoline98 fts1)\<rparr>;
          fts3 = fts2\<lparr>diesel := mutateFuel 5.8 variation t (diesel fts2)\<rparr>
      in s\<lparr>fuelTypes := fts3, lastScraped := Some t\<rparr>)"

text \<open>
  The loop over \<open>Station.find({isActive: true})\<close>, run over the collection: an
  inactive document is not in the query's result and stays as it is; an active one is
  mutated and saved in place. A \<open>save()\<close> that throws leaves the loop: that document
  and all later ones keep their stored value, and the error reaches the handler of
  scrapeFuelPrices (the second component).
\<close>

fun scrapeLoop :: "env \<Rightarrow> nat \<Rightarrow> station list \<Rightarrow> station list \<times> error option" where
  "scrapeLoop e k [] = ([], None)"
| "scrapeLoop e k (s # ss) =
     (if \<not> isActive s then
        (case scrapeLoop e (Suc k) ss of (ss', r) \<Rightarrow> (s # ss', r))
      else if stationSaveFails e k then (s # ss, Some SaveError)
      else
        (case scrapeLoop e (Suc k) ss of
           (ss', r) \<Rightarrow> (scrapeStation (random e k) (now e) s # ss', r)))"

subsection \<open>Alert Evaluator: checkPriceAlerts\<close>

text \<open>
  The body of the inner loop for one alert. \<open>populate\<close> has replaced
  \<open>alert.stationId\<close> by the station document, or by null when none has that id.
  The result is the alert as the loop leaves it and what it pushed on
  \<open>triggeredAlerts\<close> (nothing, or one entry).
\<close>

definition checkAlert :: "timestamp \<Rightarrow> station list \<Rightarrow> priceAlert \<Rightarrow> priceAlert \<times> triggered list" where
  "checkAlert t sts a =
     (if \<not> alertIsActive a then (a, [])
      else
        (case findStation (stationId a) sts of
           None \<Rightarrow> (a, [])
         | Some st \<Rightarrow>
             (case price (fuelOf (fuelType a) (fuelTypes st)) of
                None \<Rightarrow> (a, [])
              | Some cur \<Rightarrow>
                  if cur \<noteq> 0 \<and> cur \<le> targetPrice a then
                    (let lastTrig = lastTriggered a;
                         oneDayAgo = t - 24 * 60 * 60 * 1000
                     in if (case lastTrig of None \<Rightarrow> True | Some lt \<Rightarrow> lt < oneDayAgo) then
                          (a\<lparr>lastTriggered := Some t\<rparr>,
                           [\<lparr>stationName = name st, stationAddress = address st,
                             triggeredFuelType = fuelType a, currentPrice = cur,
                             triggeredTargetPrice = targetPrice a\<rparr>])
                        else (a, []))
                  else (a, []))))"

text \<open>The inner loop: the alerts in order, the entries pushed in order.\<close>

fun checkAlerts :: "timestamp \<Rightarrow> station list \<Rightarrow> priceAlert list \<Rightarrow> priceAlert list \<times> triggered list" where
  "checkAlerts t sts [] = ([], [])"
| "checkAlerts t sts (a # as) =
     (case checkAlert t sts a of
        (a', pushed) \<Rightarrow>
          (case checkAlerts t sts as of
             (as', rest) \<Rightarrow> (a' # as', pushed @ rest)))"

subsection \<open>Notifier: sendPriceAlertEmail\<close>

text \<open>
  The whole body is inside \<open>try\<close>; a throwing \<open>sendMail\<close> is caught and
  written to the console, so the function returns normally in both cases.
\<close>

definition sendPriceAlertEmail :: "bool \<Rightarrow> user \<Rightarrow> triggered list \<Rightarrow> effects" where
  "sendPriceAlertEmail sendMailThrows u alerts =
     (if sendMailThrows then
        \<lparr>mails = [], logs = [LogError ''Error sending price alert email:'' MailError]\<rparr>
      else
        \<lparr>mails = [\<lparr>mailTo = email u, mailAlerts = alerts\<rparr>],
         logs = [LogInfo (''Price alert email sent to '' @ email u)]\<rparr>)"

definition noEffects :: effects where
  "noEffects = \<lparr>mails = [], logs = []\<rparr>"

definition appendEffects :: "effects \<Rightarrow> effects \<Rightarrow> effects" where
  "appendEffects a b = \<lparr>mails = mails a @ mails b, logs = logs a @ logs b\<rparr>"

text \<open>
  The query of \<open>User.find\<close>: some alert of the user is active, and the user's
  email notifications are on.
\<close>

definition matchesQuery :: "user \<Rightarrow> bool" where
  "matchesQuery u = (list_ex alertIsActive (priceAlerts u) \<and> emailNotifications u)"

text \<open>
  The body of the outer loop for one user of the query's result: the inner loop, then,
  when the batch is not empty, the Notifier and \<open>user.save()\<close>. The result is the
  stored document afterwards, the effects, and the error thrown, if any: a
  \<open>save()\<close> that throws leaves the stored document as it was.
\<close>

definition checkUser :: "env \<Rightarrow> nat \<Rightarrow> station list \<Rightarrow> user \<Rightarrow> user \<times> effects \<times> error option" where
  "checkUser e k sts u =
     (case checkAlerts (now e) sts (priceAlerts u) of
        (alerts', triggeredAlerts) \<Rightarrow>
          if length triggeredAlerts > 0 then
            (let sent = sendPriceAlertEmail (mailFails e k) u triggeredAlerts in
             if userSaveFails e k then (u, sent, Some SaveError)
             else (u\<lparr>priceAlerts := alerts'\<rparr>, sent, None))
          else (u, noEffects, None))"

text \<open>
  The outer loop, run over the collection: a user outside the query's result stays as
  stored; an error thrown in the body leaves the loop, and all later users stay as
  stored.
\<close>

fun userLoop :: "env \<Rightarrow> nat \<Rightarrow> station list \<Rightarrow> user list \<Rightarrow> user list \<times> effects \<times> error option" where
  "userLoop e k sts [] = ([], noEffects, None)"
| "userLoop e k sts (u # us) =
     (if \<not> matchesQuery u then
        (case userLoop e (Suc k) sts us of (us', fx, r) \<Rightarrow> (u # us', fx, r))
      else
        (case checkUser e k sts u of
           (u', fx, Some err) \<Rightarrow> (u' # us, fx, Some err)
         | (u', fx, None) \<Rightarrow>
             (case userLoop e (Suc k) sts us of
                (us', fx', r) \<Rightarrow> (u' # us', appendEffects fx fx', r))))"

text \<open>
  The statement after the outer loop reads \<open>triggeredAlerts\<close>, a \<open>const\<close> of
  the loop's block: at that place the name is not bound, and reading it throws.
\<close>

definition afterLoop :: "error + log_entry list" where
  "afterLoop = Inl (ReferenceError ''triggeredAlerts is not defined'')"

text \<open>
  checkPriceAlerts: the loop and the statement after it are inside \<open>try\<close>; whatever
  is thrown is written to the console, and the function returns normally.
\<close>

definition checkPriceAlerts :: "env \<Rightarrow> world \<Rightarrow> world" where
  "checkPriceAlerts e w =
     (case userLoop e 0 (stations w) (users w) of
        (us', fx, r) \<Rightarrow>
          (let outcome = (case r of Some err \<Rightarrow> Inl err | None \<Rightarrow> afterLoop);
               tail = (case outcome of
                         Inl err \<Rightarrow> [LogError ''Error checking price alerts:'' err]
                       | Inr ls \<Rightarrow> ls)
           in w\<lparr>users := us', outbox := outbox w @ mails fx,
                console := console w @ logs fx @ tail\<rparr>))"

subsection \<open>Price Mutator: scrapeFuelPrices\<close>

definition scrapeFuelPrices :: "env \<Rightarrow> world \<Rightarrow> world" where
  "scrapeFuelPrices e w =
     (let w0 = w\<lparr>console := console w @ [LogInfo ''Starting fuel price scraping...'']\<rparr> in
      (case scrapeLoop e 0 (stations w) of
         (sts', Some err) \<Rightarrow>
           w0\<lparr>stations := sts',
              console := console w0 @ [LogError ''Error scraping fuel prices:'' err]\<rparr>
       | (sts', None) \<Rightarrow>
           checkPriceAlerts e
             (w0\<lparr>stations := sts',
                 console := console w0 @
                   [LogCount ''Updated prices for stations:''
                      (length (filter isActive (stations w)))]\<rparr>)))"

section \<open>HTTP handlers (server/routes/stations.js, server/routes/users.js)\<close>

text \<open>
  A handler maps the stores and a request to a response and the stores after it. Of the
  response the status and the \<open>message\<close> of its JSON body are kept. A field of
  a request body is missing, present but refused by its validator (\<open>isMongoId\<close>,
  \<open>isIn\<close>, \<open>isNumeric\<close>, \<open>isBoolean\<close>), or given with a value of its type.
  The store is taken to be reachable; the errors a handler catches here are the
  CastError that \<open>findById\<close> throws for a text that is no ObjectId, and the
  TypeError of reading a property of the null that \<open>User.findById\<close> returns for an
  unknown user.
\<close>

datatype 'a field = Missing | Malformed | Given 'a

text \<open>
  A route parameter is a text: one that does not cast to an ObjectId, or one that casts
  to the ObjectId given, spelled as \<open>toString\<close> spells that id (\<open>True\<close>) or in
  another way (\<open>False\<close>, as with upper-case digits). \<open>castId\<close> is the cast that
  \<open>findById\<close> and \<open>priceAlerts.id\<close> apply to the text; \<open>sameText\<close> is the
  comparison \<open>id.toString() === text\<close>.
\<close>

datatype routeId = NotAnId | IdText oid bool

fun castId :: "routeId \<Rightarrow> oid option" where
  "castId NotAnId = None"
| "castId (IdText i spelled) = Some i"

fun sameText :: "oid \<Rightarrow> routeId \<Rightarrow> bool" where
  "sameText i NotAnId = False"
| "sameText i (IdText j spelled) = (spelled \<and> i = j)"

record response =
  status :: nat
  message :: string

text \<open>\<open>doc.save()\<close>: the stored document with the same id is replaced.\<close>

fun saveStation :: "station \<Rightarrow> station list \<Rightarrow> station list" where
  "saveStation s [] = []"
| "saveStation s (x # xs) =
     (if station_id x = station_id s then s # xs else x # saveStation s xs)"

fun saveUser :: "user \<Rightarrow> user list \<Rightarrow> user list" where
  "saveUser u [] = []"
| "saveUser u (x # xs) =
     (if user_id x = user_id u then u # xs else x # saveUser u xs)"

text \<open>The handlers' \<open>catch\<close>: the error on the console, and the answer 500.\<close>

definition serverError :: "string \<Rightarrow> error \<Rightarrow> string \<Rightarrow> world \<Rightarrow> response \<times> world" where
  "serverError logged err msg w =
     (\<lparr>status = 500, message = msg\<rparr>,
      w\<lparr>console := console w @ [LogError logged err]\<rparr>)"

subsection \<open>GET /api/stations/:id\<close>

definition get_station :: "routeId \<Rightarrow> world \<Rightarrow> response \<times> world" where
  "get_station param w =
     (case castId param of
        None \<Rightarrow>
          serverError ''Get station error:'' CastError ''Server error while fetching station'' w
      | Some i \<Rightarrow>
          (case findStation i (stations w) of
             None \<Rightarrow> (\<lparr>status = 404, message = ''Station not found''\<rparr>, w)
           | Some s \<Rightarrow> (\<lparr>status = 200, message = []\<rparr>, w)))"

subsection \<open>PUT /api/stations/:id\<close>

text \<open>
  The body's \<open>fuelTypes\<close> is absent or an object: its keys in order, each with the
  price of its entry (absent when the entry is null or has no price; prices are
  numbers). A key outside the schema is not a path of the document and is not stored.
\<close>

definition fuelKey :: "string \<Rightarrow> fuel_type option" where
  "fuelKey key =
     (if key = ''gasoline95'' then Some Gasoline95
      else if key = ''gasoline98'' then Some Gasoline98
      else if key = ''diesel'' then Some Diesel
      else None)"

definition putFuel :: "timestamp \<Rightarrow> station \<Rightarrow> string \<times> real option \<Rightarrow> station" where
  "putFuel t s entry =
     (case snd entry of
        None \<Rightarrow> s
      | Some p \<Rightarrow>
          if p \<noteq> 0 then
            (case fuelKey (fst entry) of
               None \<Rightarrow> s
             | Some ft \<Rightarrow>
                 s\<lparr>fuelTypes :=
                     setFuel ft \<lparr>price = Some p, lastUpdated = Some t\<rparr> (fuelTypes s)\<rparr>)
          else s)"

definition put_station ::
  "timestamp \<Rightarrow> routeId \<Rightarrow> (string \<times> real option) list option \<Rightarrow> world \<Rightarrow> response \<times> world" where
  "put_station t param body w =
     (case castId param of
        None \<Rightarrow>
          serverError ''Update station error:'' CastError ''Server error while updating station'' w
      | Some i \<Rightarrow>
          (case findStation i (stations w) of
             None \<Rightarrow> (\<lparr>status = 404, message = ''Station not found''\<rparr>, w)
           | Some s \<Rightarrow>
               (let s1 = (case body of None \<Rightarrow> s | Some entries \<Rightarrow> foldl (putFuel t) s entries);
                    s2 = s1\<lparr>lastScraped := Some t\<rparr>
                in (\<lparr>status = 200, message = ''Station updated successfully''\<rparr>,
                    w\<lparr>stations := saveStation s2 (stations w)\<rparr>))))"

subsection \<open>POST /api/users/favorites, DELETE /api/users/favorites/:stationId\<close>

definition post_favorites :: "oid \<Rightarrow> oid field \<Rightarrow> world \<Rightarrow> response \<times> world" where
  "post_favorites userId bodyId w =
     (case bodyId of
        Given sid \<Rightarrow>
          (case findStation sid (stations w) of
             None \<Rightarrow> (\<lparr>status = 404, message = ''Station not found''\<rparr>, w)
           | Some s \<Rightarrow>
               (case findUser userId (users w) of
                  None \<Rightarrow>
                    serverError ''Add favorite error:'' TypeError
                      ''Server error while adding favorite'' w
                | Some u \<Rightarrow>
                    if sid \<in> set (favoriteStations u) then
                      (\<lparr>status = 400, message = ''Station already in favorites''\<rparr>, w)
                    else
                      (\<lparr>status = 200, message = ''Station added to favorites''\<rparr>,
                       w\<lparr>users :=
                           saveUser (u\<lparr>favoriteStations := favoriteStations u @ [sid]\<rparr>)
                             (users w)\<rparr>)))
      | _ \<Rightarrow> (\<lparr>status = 400, message = ''Validation failed''\<rparr>, w))"

definition delete_favorite :: "oid \<Rightarrow> routeId \<Rightarrow> world \<Rightarrow> response \<times> world" where
  "delete_favorite userId stationParam w =
     (case findUser userId (users w) of
        None \<Rightarrow>
          serverError ''Remove favorite error:'' TypeError
            ''Server error while removing favorite'' w
      | Some u \<Rightarrow>
          (\<lparr>status = 200, message = ''Station removed from favorites''\<rparr>,
           w\<lparr>users :=
               saveUser
                 (u\<lparr>favoriteStations :=
                     filter (\<lambda>i. \<not> sameText i stationParam) (favoriteStations u)\<rparr>)
                 (users w)\<rparr>))"

subsection \<open>POST /api/users/alerts\<close>

record alertBody =
  bodyStationId :: "oid field"
  bodyFuelType :: "fuel_type field"
  bodyTargetPrice :: "real field"

text \<open>
  \<open>newId\<close> is the id Mongoose gives the pushed subdocument. The schema's default
  leaves \<open>lastTriggered\<close> absent.
\<close>

definition post_alerts :: "oid \<Rightarrow> oid \<Rightarrow> alertBody \<Rightarrow> world \<Rightarrow> response \<times> world" where
  "post_alerts newId userId body w =
     (case (bodyStationId body, bodyFuelType body, bodyTargetPrice body) of
        (Given sid, Given ft, Given target) \<Rightarrow>
          (case findStation sid (stations w) of
             None \<Rightarrow> (\<lparr>status = 404, message = ''Station not found''\<rparr>, w)
           | Some s \<Rightarrow>
               (case findUser userId (users w) of
                  None \<Rightarrow>
                    serverError ''Create alert error:'' TypeError
                      ''Server error while creating alert'' w
                | Some u \<Rightarrow>
                    (case find (\<lambda>a. stationId a = sid \<and> fuelType a = ft) (priceAlerts u) of
                       Some existingAlert \<Rightarrow>
                         (\<lparr>status = 400,
                           message = ''Alert already exists for this station and fuel type''\<rparr>, w)
                     | None \<Rightarrow>
                         (let newAlert =
                                \<lparr>alert_id = newId, stationId = sid, fuelType = ft,
                                 targetPrice = target, alertIsActive = True,
                                 lastTriggered = None\<rparr>
                          in (\<lparr>status = 201, message = ''Price alert created successfully''\<rparr>,
                              w\<lparr>users :=
                                  saveUser (u\<lparr>priceAlerts := priceAlerts u @ [newAlert]\<rparr>)
                                    (users w)\<rparr>)))))
      | _ \<Rightarrow> (\<lparr>status = 400, message = ''Validation failed''\<rparr>, w))"

subsection \<open>DELETE /api/users/alerts/:alertId, PUT /api/users/alerts/:alertId\<close>

definition delete_alert :: "oid \<Rightarrow> routeId \<Rightarrow> world \<Rightarrow> response \<times> world" where
  "delete_alert userId alertParam w =
     (case findUser userId (users w) of
        None \<Rightarrow>
          serverError ''Delete alert error:'' TypeError ''Server error while deleting alert'' w
      | Some u \<Rightarrow>
          (\<lparr>status = 200, message = ''Price alert deleted successfully''\<rparr>,
           w\<lparr>users :=
               saveUser
                 (u\<lparr>priceAlerts :=
                     filter (\<lambda>a. \<not> sameText (alert_id a) alertParam) (priceAlerts u)\<rparr>)
                 (users w)\<rparr>))"

text \<open>
  Both body fields are optional: a missing one passes validation and is not applied.
  \<open>user.priceAlerts.id(alertId)\<close> casts the text and returns the first subdocument
  with that id, or null when there is none or the text does not cast; the handler
  changes the subdocument in place.
\<close>

definition alertById :: "routeId \<Rightarrow> priceAlert list \<Rightarrow> priceAlert option" where
  "alertById param as =
     (case castId param of
        None \<Rightarrow> None
      | Some i \<Rightarrow> find (\<lambda>a. alert_id a = i) as)"

fun updateAlert :: "oid \<Rightarrow> (priceAlert \<Rightarrow> priceAlert) \<Rightarrow> priceAlert list \<Rightarrow> priceAlert list" where
  "updateAlert i f [] = []"
| "updateAlert i f (a # as) = (if alert_id a = i then f a # as else a # updateAlert i f as)"

definition put_alert :: "oid \<Rightarrow> routeId \<Rightarrow> real field \<Rightarrow> bool field \<Rightarrow> world \<Rightarrow> response \<times> world" where
  "put_alert userId alertParam bodyTarget bodyActive w =
     (if bodyTarget = Malformed \<or> bodyActive = Malformed then
        (\<lparr>status = 400, message = ''Validation failed''\<rparr>, w)
      else
        (case findUser userId (users w) of
           None \<Rightarrow>
             serverError ''Update alert error:'' TypeError ''Server error while updating alert'' w
         | Some u \<Rightarrow>
             (case alertById alertParam (priceAlerts u) of
                None \<Rightarrow> (\<lparr>status = 404, message = ''Alert not found''\<rparr>, w)
              | Some alert \<Rightarrow>
                  (let setTarget = (\<lambda>a. case bodyTarget of Given p \<Rightarrow> a\<lparr>targetPrice := p\<rparr> | _ \<Rightarrow> a);
                       setActive = (\<lambda>a. case bodyActive of Given b \<Rightarrow> a\<lparr>alertIsActive := b\<rparr> | _ \<Rightarrow> a)
                   in (\<lparr>status = 200, message = ''Price alert updated successfully''\<rparr>,
                       w\<lparr>users :=
                           saveUser
                             (u\<lparr>priceAlerts :=
                                 updateAlert (alert_id alert) (\<lambda>a. setActive (setTarget a))
                                   (priceAlerts u)\<rparr>)
                             (users w)\<rparr>)))))"

section \<open>Notions the properties use\<close>

text \<open>The per-fuel floors: the first arguments of the three \<open>Math.max\<close> calls.\<close>

definition floorOf :: "fuel_type \<Rightarrow> real" where
  "floorOf ft = (case ft of Gasoline95 \<Rightarrow> 6.0 | Gasoline98 \<Rightarrow> 6.2 | Diesel \<Rightarrow> 5.8)"

text \<open>The perturbation of one iteration, from the value \<open>Math.random()\<close> returned.\<close>

definition variationOf :: "real \<Rightarrow> real" where
  "variationOf r = (r - 0.5) * 0.20"

text \<open>Twenty-four hours in milliseconds.\<close>

definition oneDay :: int where
  "oneDay = 24 * 60 * 60 * 1000"

text \<open>The key of a fuel type in \<open>fuelTypes\<close>.\<close>

definition keyOf :: "fuel_type \<Rightarrow> string" where
  "keyOf ft =
     (case ft of Gasoline95 \<Rightarrow> ''gasoline95'' | Gasoline98 \<Rightarrow> ''gasoline98'' | Diesel \<Rightarrow> ''diesel'')"

text \<open>
  The pass processes the \<open>k\<close>-th station document: it is active, and no \<open>save()\<close>
  of an active document up to it throws.
\<close>

definition processed :: "env \<Rightarrow> station list \<Rightarrow> nat \<Rightarrow> bool" where
  "processed e sts k =
     (k < length sts \<and> isActive (sts ! k) \<and>
      (\<forall>j \<le> k. isActive (sts ! j) \<longrightarrow> \<not> stationSaveFails e j))"

text \<open>
  A timestamp after the pass is strictly greater than the one before it (an absent
  one before the pass counts as earlier than any).
\<close>

definition strictlyLater :: "timestamp option \<Rightarrow> timestamp option \<Rightarrow> bool" where
  "strictlyLater new old =
     (case new of
        None \<Rightarrow> False
      | Some n \<Rightarrow> (case old of None \<Rightarrow> True | Some t \<Rightarrow> t < n))"

text \<open>What a pass of the evaluator that saves every user stores for one user.\<close>

definition evalUser :: "timestamp \<Rightarrow> station list \<Rightarrow> user \<Rightarrow> user" where
  "evalUser t sts u =
     (if matchesQuery u then u\<lparr>priceAlerts := fst (checkAlerts t sts (priceAlerts u))\<rparr> else u)"

text \<open>The entry the inner loop pushes for an alert on a station at a price.\<close>

definition entryFor :: "station \<Rightarrow> priceAlert \<Rightarrow> real \<Rightarrow> triggered" where
  "entryFor st a cur =
     \<lparr>stationName = name st, stationAddress = address st, triggeredFuelType = fuelType a,
      currentPrice = cur, triggeredTargetPrice = targetPrice a\<rparr>"

text \<open>
  A body of POST /api/users/alerts passes validation; its station id resolves to a
  stored station.
\<close>

definition validBody :: "alertBody \<Rightarrow> bool" where
  "validBody body =
     (bodyStationId body \<noteq> Missing \<and> bodyStationId body \<noteq> Malformed \<and>
      bodyFuelType body \<noteq> Missing \<and> bodyFuelType body \<noteq> Malformed \<and>
      bodyTargetPrice body \<noteq> Missing \<and> bodyTargetPrice body \<noteq> Malformed)"

definition resolves :: "alertBody \<Rightarrow> world \<Rightarrow> bool" where
  "resolves body w =
     (case bodyStationId body of
        Given sid \<Rightarrow> findStation sid (stations w) \<noteq> None
      | _ \<Rightarrow> False)"

text \<open>
  The Notifier's effects in a pass of the evaluator whose loop runs to its end: one call
  for every user of the query's result with a non-empty batch, in order.
\<close>

fun notifications :: "env \<Rightarrow> nat \<Rightarrow> station list \<Rightarrow> user list \<Rightarrow> effects" where
  "notifications e k sts [] = noEffects"
| "notifications e k sts (u # us) =
     appendEffects
       (if matchesQuery u \<and> snd (checkAlerts (now e) sts (priceAlerts u)) \<noteq> [] then
          sendPriceAlertEmail (mailFails e k) u (snd (checkAlerts (now e) sts (priceAlerts u)))
        else noEffects)
       (notifications e (Suc k) sts us)"

section \<open>Example documents\<close>

text \<open>One of the seeded stations (sampleStations), a user with one alert, a quiet environment.\<close>

definition tene :: station where
  "tene =
     \<lparr>station_id = 5, name = ''Tene Netanya'', address = ''Herzl St 78, Netanya'',
      city = ''Netanya'', brand = ''Tene'',
      fuelTypes =
        \<lparr>gasoline95 = \<lparr>price = Some 6.85, lastUpdated = Some 5000\<rparr>,
         gasoline98 = \<lparr>price = Some 7.10, lastUpdated = Some 5000\<rparr>,
         diesel = \<lparr>price = Some 6.50, lastUpdated = Some 5000\<rparr>\<rparr>,
      isActive = True, lastScraped = Some 5000\<rparr>"

definition withPrice :: "fuel_type \<Rightarrow> real \<Rightarrow> station \<Rightarrow> station" where
  "withPrice ft p s =
     s\<lparr>fuelTypes := setFuel ft ((fuelOf ft (fuelTypes s))\<lparr>price := Some p\<rparr>) (fuelTypes s)\<rparr>"

definition dieselAlert :: priceAlert where
  "dieselAlert =
     \<lparr>alert_id = 20, stationId = 5, fuelType = Diesel, targetPrice = 6.30,
      alertIsActive = True, lastTriggered = None\<rparr>"

definition subscriber :: user where
  "subscriber =
     \<lparr>user_id = 10, email = ''user@example.com'', firstName = ''Noa'',
      favoriteStations = [], priceAlerts = [dieselAlert], emailNotifications = True\<rparr>"

definition quiet :: "timestamp \<Rightarrow> real \<Rightarrow> env" where
  "quiet t r =
     \<lparr>now = t, random = (\<lambda>k. r), stationSaveFails = (\<lambda>k. False),
      userSaveFails = (\<lambda>k. False), mailFails = (\<lambda>k. False)\<rparr>"

definition store :: "station list \<Rightarrow> user list \<Rightarrow> world" where
  "store sts us = \<lparr>stations = sts, users = us, outbox = [], console = []\<rparr>"

text \<open>
  The station with diesel at 6.20, and with diesel at 0; the alert triggered one hour
  before the instant 100000000; an environment at that instant in which nothing
  fails, and one in which every \<open>sendMail\<close> throws.
\<close>

definition cheapDiesel :: station where
  "cheapDiesel = withPrice Diesel 6.20 tene"


definition recentAlert :: priceAlert where
  "recentAlert = dieselAlert\<lparr>lastTriggered := Some 96400000\<rparr>"

definition calm :: env where
  "calm = quiet 100000000 0.5"

definition stormy :: env where
  "stormy = calm\<lparr>mailFails := (\<lambda>k. True)\<rparr>"

section \<open>The Price Mutator\<close>

subsection \<open>The loop over the station collection\<close>

lemma fst_scrapeLoop_Cons:
  "fst (scrapeLoop e k (s # ss)) =
     (if \<not> isActive s then s # fst (scrapeLoop e (Suc k) ss)
      else if stationSaveFails e k then s # ss
      else scrapeStation (random e k) (now e) s # fst (scrapeLoop e (Suc k) ss))"
  by (simp split: prod.splits)

lemma scrapeLoop_length: "length (fst (scrapeLoop e k ss)) = length ss"
proof (induction ss arbitrary: k)
  case Nil
  show ?case by simp
next
  case (Cons s ss)
  show ?case unfolding fst_scrapeLoop_Cons by (simp add: Cons.IH)
qed

text \<open>Every document is either as stored or the loop body's result on it.\<close>

lemma scrapeLoop_nth:
  "i < length ss \<Longrightarrow>
     fst (scrapeLoop e k ss) ! i = ss ! i \<or>
     fst (scrapeLoop e k ss) ! i = scrapeStation (random e (k + i)) (now e) (ss ! i)"
proof (induction ss arbitrary: k i)
  case Nil
  then show ?case by simp
next
  case (Cons s ss)
  show ?case
  proof (cases i)
    case 0
    then show ?thesis unfolding fst_scrapeLoop_Cons by simp
  next
    case (Suc j)
    with Cons.prems have "j < length ss" by simp
    from Cons.IH [OF this, of "Suc k"] Suc show ?thesis
      unfolding fst_scrapeLoop_Cons by auto
  qed
qed

lemma scrapeLoop_processed:
  "i < length ss \<Longrightarrow> isActive (ss ! i) \<Longrightarrow>
   (\<forall>j \<le> i. isActive (ss ! j) \<longrightarrow> \<not> stationSaveFails e (k + j)) \<Longrightarrow>
   fst (scrapeLoop e k ss) ! i = scrapeStation (random e (k + i)) (now e) (ss ! i)"
proof (induction ss arbitrary: k i)
  case Nil
  then show ?case by simp
next
  case (Cons s ss)
  show ?case
  proof (cases i)
    case 0
    with Cons.prems show ?thesis unfolding fst_scrapeLoop_Cons by simp
  next
    case (Suc j)
    with Cons.prems have len: "j < length ss" and act: "isActive (ss ! j)" by simp_all
    have head: "isActive s \<longrightarrow> \<not> stationSaveFails e k"
      using Cons.prems(3) by (auto dest: spec [of _ 0])
    have tail: "\<forall>j' \<le> j. isActive (ss ! j') \<longrightarrow> \<not> stationSaveFails e (Suc k + j')"
    proof (intro allI impI)
      fix j' assume "j' \<le> j" and "isActive (ss ! j')"
      with Cons.prems(3) Suc show "\<not> stationSaveFails e (Suc k + j')"
        by (auto dest: spec [of _ "Suc j'"])
    qed
    from Cons.IH [OF len act tail] head Suc show ?thesis
      unfolding fst_scrapeLoop_Cons by auto
  qed
qed

lemma stations_checkPriceAlerts: "stations (checkPriceAlerts e w) = stations w"
  by (simp add: checkPriceAlerts_def Let_def split: prod.splits)

lemma stations_scrapeFuelPrices:
  "stations (scrapeFuelPrices e w) = fst (scrapeLoop e 0 (stations w))"
  by (simp add: scrapeFuelPrices_def Let_def stations_checkPriceAlerts
      split: prod.splits option.splits)

lemma post_processed:
  assumes "processed e (stations w) k"
  shows "stations (scrapeFuelPrices e w) ! k =
    scrapeStation (random e k) (now e) (stations w ! k)"
  using assms scrapeLoop_processed [of k "stations w" e 0]
  by (simp add: processed_def stations_scrapeFuelPrices)

subsection \<open>The loop body\<close>

lemma fuelOf_scrapeStation:
  "fuelOf ft (fuelTypes (scrapeStation r t s)) =
     mutateFuel (floorOf ft) (variationOf r) t (fuelOf ft (fuelTypes s))"
  by (cases ft) (simp_all add: scrapeStation_def floorOf_def variationOf_def Let_def)

lemma lastScraped_scrapeStation: "lastScraped (scrapeStation r t s) = Some t"
  by (simp add: scrapeStation_def Let_def)

lemma mutateFuel_floor:
  "price f = Some p \<Longrightarrow> lo \<le> p \<Longrightarrow> \<exists>q. price (mutateFuel lo v t f) = Some q \<and> lo \<le> q"
  by (simp add: mutateFuel_def)

lemma price_mutateFuel:
  "price (mutateFuel lo v t f) =
     (case price f of None \<Rightarrow> None | Some p \<Rightarrow> Some (if p = 0 then 0 else max lo (p + v)))"
  by (simp add: mutateFuel_def split: option.splits)

lemma lastUpdated_mutateFuel:
  "lastUpdated (mutateFuel lo v t f) = (if truthy (price f) then Some t else lastUpdated f)"
  by (simp add: mutateFuel_def split: option.splits)

subsection \<open>The example station in a pass\<close>

lemma tene_pass:
  "stations (scrapeFuelPrices (quiet t r) (store [tene] [])) = [scrapeStation r t tene]"
  by (simp add: stations_scrapeFuelPrices quiet_def store_def tene_def)

lemma processed_tene: "processed (quiet t r) (stations (store [tene] [])) 0"
  by (simp add: processed_def quiet_def store_def tene_def)

subsection \<open>The clamping invariant\<close>

text \<open>
  Claim C1. Take any station document of the collection (active or not, reached by the
  pass or not) and any fuel type whose stored price is present and at or above that
  fuel type's floor (6.0 for gasoline95, 6.2 for gasoline98, 5.8 for diesel). After
  one pass of scrapeFuelPrices the price of that fuel type on that document is present
  and at or above the floor, whatever \<open>Math.random()\<close> returns and whichever
  \<open>save()\<close> throws.
\<close>

theorem scrape_keeps_floor:
  assumes "k < length (stations w)"
    and "price (fuelOf ft (fuelTypes (stations w ! k))) = Some p"
    and "floorOf ft \<le> p"
  shows "\<exists>q. price (fuelOf ft (fuelTypes (stations (scrapeFuelPrices e w) ! k))) = Some q \<and>
             floorOf ft \<le> q"
proof -
  from scrapeLoop_nth [OF assms(1), of e 0]
  show ?thesis
  proof
    assume "fst (scrapeLoop e 0 (stations w)) ! k = stations w ! k"
    with assms show ?thesis by (simp add: stations_scrapeFuelPrices)
  next
    assume "fst (scrapeLoop e 0 (stations w)) ! k =
      scrapeStation (random e (0 + k)) (now e) (stations w ! k)"
    with mutateFuel_floor [OF assms(2,3)] show ?thesis
      by (simp add: stations_scrapeFuelPrices fuelOf_scrapeStation)
  qed
qed

text \<open>
  The station at 6.85 for gasoline95 with a perturbation of -1.0 (the value
  \<open>Math.random()\<close> would have to return for it is -4.5): the price after the pass
  is the floor 6.0, not 5.85.
\<close>

theorem scrape_keeps_floor_witness:
  "0 < length (stations (store [tene] [])) \<and>
   price (fuelOf Gasoline95 (fuelTypes (stations (store [tene] []) ! 0))) = Some 6.85 \<and>
   floorOf Gasoline95 \<le> 6.85 \<and>
   variationOf (- 4.5) = - 1.0 \<and>
   price (fuelOf Gasoline95
     (fuelTypes (stations (scrapeFuelPrices (quiet 9000 (- 4.5)) (store [tene] [])) ! 0))) =
     Some 6.0"
  using scrape_keeps_floor [of 0 "store [tene] []" Gasoline95 "6.85" "quiet 9000 (- 4.5)"]
  by (simp add: tene_pass fuelOf_scrapeStation mutateFuel_def variationOf_def floorOf_def)
     (simp add: store_def tene_def)

subsection \<open>One perturbation per station\<close>

text \<open>
  Claim C4, as amended. For every station the pass processes, the one perturbation
  \<open>(Math.random() - 0.5) * 0.20\<close> of its iteration is added to each of its fuel
  prices that is present and not zero, and the sum is clamped to that fuel type's
  floor: the price after the pass is \<open>max floor (price + delta)\<close> with the same
  \<open>delta\<close> for gasoline95, gasoline98 and diesel. An absent price stays absent and
  a price of zero stays zero.
\<close>

theorem scrape_single_variation:
  assumes "processed e (stations w) k"
  shows "\<forall>ft. price (fuelOf ft (fuelTypes (stations (scrapeFuelPrices e w) ! k))) =
     (case price (fuelOf ft (fuelTypes (stations w ! k))) of
        None \<Rightarrow> None
      | Some p \<Rightarrow> Some (if p = 0 then 0 else max (floorOf ft) (p + variationOf (random e k))))"
  by (simp add: post_processed [OF assms] fuelOf_scrapeStation price_mutateFuel)

theorem scrape_single_variation_witness:
  "processed (quiet 9000 0.3) (stations (store [tene] [])) 0 \<and>
   variationOf (random (quiet 9000 0.3) 0) = - 0.04 \<and>
   map (\<lambda>ft. price (fuelOf ft
          (fuelTypes (stations (scrapeFuelPrices (quiet 9000 0.3) (store [tene] [])) ! 0))))
     [Gasoline95, Gasoline98, Diesel] = [Some 6.81, Some 7.06, Some 6.46]"
  using scrape_single_variation [OF processed_tene, of 9000 "0.3"]
  by (simp add: processed_tene del: fuelOf.simps)
     (simp add: store_def tene_def quiet_def variationOf_def floorOf_def)

text \<open>
  The claim as stated fails for a present price of zero: the guard
  \<open>if (station.fuelTypes.gasoline95?.price)\<close> is false for it, the price stays 0,
  and no \<open>delta\<close> makes \<open>max 6.0 (0 + delta)\<close> equal to 0.
\<close>

theorem scrape_zero_price_counterexample:
  "price (fuelOf Gasoline95 (fuelTypes (withPrice Gasoline95 0 tene))) = Some 0 \<and>
   \<not> (\<exists>delta. price (fuelOf Gasoline95 (fuelTypes (stations
          (scrapeFuelPrices (quiet 9000 0.3) (store [withPrice Gasoline95 0 tene] [])) ! 0))) =
        Some (max (floorOf Gasoline95) (0 + delta)))"
proof -
  have "stations (scrapeFuelPrices (quiet 9000 0.3) (store [withPrice Gasoline95 0 tene] [])) ! 0
      = scrapeStation 0.3 9000 (withPrice Gasoline95 0 tene)"
    by (simp add: stations_scrapeFuelPrices quiet_def store_def tene_def withPrice_def)
  moreover have "price (fuelOf Gasoline95 (fuelTypes (withPrice Gasoline95 0 tene))) = Some 0"
    by (simp add: withPrice_def tene_def)
  moreover have "\<And>delta::real. (0::real) \<noteq> max (floorOf Gasoline95) (0 + delta)"
    by (simp add: floorOf_def max_def)
  ultimately show ?thesis
    by (simp add: fuelOf_scrapeStation price_mutateFuel del: fuelOf.simps)
qed

subsection \<open>The timestamps of a pass\<close>

text \<open>
  Claim C9, as amended. For every station the pass processes, \<open>lastScraped\<close> and the
  \<open>lastUpdated\<close> of each fuel type whose price is present and not zero are set to
  the clock's reading of the pass; the \<open>lastUpdated\<close> of any other fuel type is left
  as it was. The new \<open>lastScraped\<close> is strictly greater than the one before the pass
  exactly when that one was absent or earlier than the clock's reading: the code
  stamps without comparing.
\<close>

theorem scrape_stamps_now:
  assumes "processed e (stations w) k"
  shows "lastScraped (stations (scrapeFuelPrices e w) ! k) = Some (now e) \<and>
    (\<forall>ft. lastUpdated (fuelOf ft (fuelTypes (stations (scrapeFuelPrices e w) ! k))) =
       (if truthy (price (fuelOf ft (fuelTypes (stations w ! k)))) then Some (now e)
        else lastUpdated (fuelOf ft (fuelTypes (stations w ! k))))) \<and>
    strictlyLater (lastScraped (stations (scrapeFuelPrices e w) ! k))
        (lastScraped (stations w ! k)) =
      (case lastScraped (stations w ! k) of None \<Rightarrow> True | Some t0 \<Rightarrow> t0 < now e)"
  by (simp add: post_processed [OF assms] fuelOf_scrapeStation lastUpdated_mutateFuel
      lastScraped_scrapeStation strictlyLater_def)

theorem scrape_stamps_now_witness:
  "processed (quiet 9000 0.3) (stations (store [tene] [])) 0 \<and>
   lastScraped (stations (store [tene] []) ! 0) = Some 5000 \<and>
   lastScraped (stations (scrapeFuelPrices (quiet 9000 0.3) (store [tene] [])) ! 0) = Some 9000 \<and>
   map (\<lambda>ft. lastUpdated (fuelOf ft
          (fuelTypes (stations (scrapeFuelPrices (quiet 9000 0.3) (store [tene] [])) ! 0))))
     [Gasoline95, Gasoline98, Diesel] = [Some 9000, Some 9000, Some 9000] \<and>
   strictlyLater (lastScraped (stations (scrapeFuelPrices (quiet 9000 0.3) (store [tene] [])) ! 0))
     (lastScraped (stations (store [tene] []) ! 0))"
  using scrape_stamps_now [OF processed_tene, of 9000 "0.3"]
  by (simp add: processed_tene del: fuelOf.simps)
     (simp add: store_def tene_def quiet_def strictlyLater_def)

text \<open>
  The claim as stated fails when the clock reads, during the pass, the instant that the
  station already carries (a stamp written in the same millisecond by the update
  endpoint or by the pass of the other schedule; a later instant, sent with the body
  that created the station, fails it as well): the timestamp after the pass is not
  strictly greater.
\<close>

theorem scrape_same_instant_counterexample:
  "lastScraped (stations (store [tene] []) ! 0) = Some 5000 \<and>
   lastScraped (stations (scrapeFuelPrices (quiet 5000 0.3) (store [tene] [])) ! 0) = Some 5000 \<and>
   \<not> strictlyLater (lastScraped (stations (scrapeFuelPrices (quiet 5000 0.3) (store [tene] [])) ! 0))
     (lastScraped (stations (store [tene] []) ! 0))"
  by (simp add: tene_pass lastScraped_scrapeStation strictlyLater_def)
     (simp add: store_def tene_def)

section \<open>The Alert Evaluator and the Notifier\<close>

subsection \<open>The inner loop\<close>

lemma checkAlerts_Cons:
  "checkAlerts t sts (a # as) =
     (fst (checkAlert t sts a) # fst (checkAlerts t sts as),
      snd (checkAlert t sts a) @ snd (checkAlerts t sts as))"
  by (simp split: prod.splits)

lemma fst_checkAlerts: "fst (checkAlerts t sts as) = map (\<lambda>a. fst (checkAlert t sts a)) as"
  by (induction as) (simp_all add: checkAlerts_Cons del: checkAlerts.simps(2))

lemma snd_checkAlerts:
  "snd (checkAlerts t sts as) = concat (map (\<lambda>a. snd (checkAlert t sts a)) as)"
  by (induction as) (simp_all add: checkAlerts_Cons del: checkAlerts.simps(2))

lemma checkAlerts_append:
  "checkAlerts t sts (xs @ ys) =
     (fst (checkAlerts t sts xs) @ fst (checkAlerts t sts ys),
      snd (checkAlerts t sts xs) @ snd (checkAlerts t sts ys))"
  by (simp add: prod_eq_iff fst_checkAlerts snd_checkAlerts)

text \<open>An alert that pushes nothing is not changed.\<close>

lemma checkAlert_quiet: "snd (checkAlert t sts a) = [] \<Longrightarrow> fst (checkAlert t sts a) = a"
  by (auto simp add: checkAlert_def Let_def split: if_splits option.splits)

lemma checkAlerts_quiet:
  "snd (checkAlerts t sts as) = [] \<Longrightarrow> fst (checkAlerts t sts as) = as"
  by (induction as) (simp_all add: checkAlerts_Cons checkAlert_quiet del: checkAlerts.simps(2))

lemma checkAlert_fires:
  assumes "alertIsActive a"
    and "findStation (stationId a) sts = Some st"
    and "price (fuelOf (fuelType a) (fuelTypes st)) = Some cur"
    and "cur \<noteq> 0" and "cur \<le> targetPrice a"
    and "lastTriggered a = None \<or> (\<exists>lt. lastTriggered a = Some lt \<and> oneDay < t - lt)"
  shows "checkAlert t sts a = (a\<lparr>lastTriggered := Some t\<rparr>, [entryFor st a cur])"
  using assms by (auto simp add: checkAlert_def entryFor_def oneDay_def Let_def)

lemma checkAlert_skips:
  assumes "lastTriggered a = Some lt" and "t - lt < oneDay"
  shows "checkAlert t sts a = (a, [])"
  using assms by (simp add: checkAlert_def oneDay_def Let_def split: option.splits)

subsection \<open>The outer loop\<close>

lemma appendEffects_noEffects [simp]:
  "appendEffects noEffects fx = fx" "appendEffects fx noEffects = fx"
  by (simp_all add: appendEffects_def noEffects_def)

lemma checkUser_cases:
  "checkUser e k sts u =
     (if snd (checkAlerts (now e) sts (priceAlerts u)) = [] then (u, noEffects, None)
      else if userSaveFails e k then
        (u, sendPriceAlertEmail (mailFails e k) u (snd (checkAlerts (now e) sts (priceAlerts u))),
         Some SaveError)
      else
        (u\<lparr>priceAlerts := fst (checkAlerts (now e) sts (priceAlerts u))\<rparr>,
         sendPriceAlertEmail (mailFails e k) u (snd (checkAlerts (now e) sts (priceAlerts u))),
         None))"
  by (simp add: checkUser_def Let_def split: prod.splits)

lemma checkUser_saved:
  "snd (snd (checkUser e k sts u)) = None \<Longrightarrow>
   fst (checkUser e k sts u) = u\<lparr>priceAlerts := fst (checkAlerts (now e) sts (priceAlerts u))\<rparr>"
  by (simp add: checkUser_cases checkAlerts_quiet split: if_splits)

lemma userLoop_Cons:
  "userLoop e k sts (u # us) =
     (if \<not> matchesQuery u then
        (u # fst (userLoop e (Suc k) sts us), snd (userLoop e (Suc k) sts us))
      else if snd (snd (checkUser e k sts u)) \<noteq> None then
        (fst (checkUser e k sts u) # us, snd (checkUser e k sts u))
      else
        (fst (checkUser e k sts u) # fst (userLoop e (Suc k) sts us),
         appendEffects (fst (snd (checkUser e k sts u))) (fst (snd (userLoop e (Suc k) sts us))),
         snd (snd (userLoop e (Suc k) sts us))))"
  by (simp split: prod.splits option.splits)

text \<open>A loop that runs to its end has stored the evaluation of every user.\<close>

lemma userLoop_complete:
  "snd (snd (userLoop e k sts us)) = None \<Longrightarrow>
   fst (userLoop e k sts us) = map (evalUser (now e) sts) us"
proof (induction us arbitrary: k)
  case Nil
  show ?case by simp
next
  case (Cons u us)
  from Cons.prems have rest: "snd (snd (userLoop e (Suc k) sts us)) = None"
    unfolding userLoop_Cons by (simp split: if_splits)
  show ?case
  proof (cases "matchesQuery u")
    case False
    with Cons.IH [OF rest] show ?thesis
      unfolding userLoop_Cons by (simp add: evalUser_def)
  next
    case True
    with Cons.prems have ok: "snd (snd (checkUser e k sts u)) = None"
      unfolding userLoop_Cons by (simp split: if_splits)
    with True Cons.IH [OF rest] checkUser_saved [OF ok] show ?thesis
      unfolding userLoop_Cons by (simp add: evalUser_def)
  qed
qed

lemma userLoop_notifications:
  "snd (snd (userLoop e k sts us)) = None \<Longrightarrow>
   fst (snd (userLoop e k sts us)) = notifications e k sts us"
proof (induction us arbitrary: k)
  case Nil
  show ?case by simp
next
  case (Cons u us)
  from Cons.prems have rest: "snd (snd (userLoop e (Suc k) sts us)) = None"
    unfolding userLoop_Cons by (simp split: if_splits)
  show ?case
  proof (cases "matchesQuery u")
    case False
    with Cons.IH [OF rest] show ?thesis
      unfolding userLoop_Cons by simp
  next
    case True
    with Cons.prems have ok: "snd (snd (checkUser e k sts u)) = None"
      unfolding userLoop_Cons by (simp split: if_splits)
    then have "fst (snd (checkUser e k sts u)) =
      (if snd (checkAlerts (now e) sts (priceAlerts u)) \<noteq> [] then
         sendPriceAlertEmail (mailFails e k) u (snd (checkAlerts (now e) sts (priceAlerts u)))
       else noEffects)"
      by (simp add: checkUser_cases split: if_splits)
    with True ok Cons.IH [OF rest] show ?thesis
      unfolding userLoop_Cons by simp
  qed
qed

lemma userLoop_no_save_failure:
  "(\<And>j. \<not> userSaveFails e j) \<Longrightarrow> snd (snd (userLoop e k sts us)) = None"
proof (induction us arbitrary: k)
  case Nil
  show ?case by simp
next
  case (Cons u us)
  have "snd (snd (checkUser e k sts u)) = None"
    using Cons.prems by (simp add: checkUser_cases)
  with Cons show ?case unfolding userLoop_Cons by simp
qed

text \<open>Every stored user is as before or carries the inner loop's alerts.\<close>

lemma users_nth_cases:
  "i < length us \<Longrightarrow>
   fst (userLoop e k sts us) ! i = us ! i \<or>
   fst (userLoop e k sts us) ! i =
     (us ! i)\<lparr>priceAlerts := fst (checkAlerts (now e) sts (priceAlerts (us ! i)))\<rparr>"
proof (induction us arbitrary: k i)
  case Nil
  then show ?case by simp
next
  case (Cons u us)
  show ?case
  proof (cases i)
    case 0
    then show ?thesis unfolding userLoop_Cons by (simp add: checkUser_cases)
  next
    case (Suc j)
    with Cons.prems have "j < length us" by simp
    from Cons.IH [OF this, of "Suc k"] Suc show ?thesis
      unfolding userLoop_Cons by auto
  qed
qed

text \<open>What is stored and what is thrown do not depend on the mail transport.\<close>

lemma checkUser_mail_stored:
  "fst (checkUser (e\<lparr>mailFails := f\<rparr>) k sts u) = fst (checkUser e k sts u) \<and>
   snd (snd (checkUser (e\<lparr>mailFails := f\<rparr>) k sts u)) = snd (snd (checkUser e k sts u))"
  by (simp add: checkUser_cases)

lemma userLoop_mail_stored:
  "fst (userLoop (e\<lparr>mailFails := f\<rparr>) k sts us) = fst (userLoop e k sts us) \<and>
   snd (snd (userLoop (e\<lparr>mailFails := f\<rparr>) k sts us)) = snd (snd (userLoop e k sts us))"
proof (induction us arbitrary: k)
  case Nil
  show ?case by simp
next
  case (Cons u us)
  show ?case unfolding userLoop_Cons
    by (simp add: Cons.IH checkUser_mail_stored)
qed

subsection \<open>checkPriceAlerts\<close>

lemma users_checkPriceAlerts:
  "users (checkPriceAlerts e w) = fst (userLoop e 0 (stations w) (users w))"
  by (simp add: checkPriceAlerts_def Let_def split: prod.splits)

lemma checkPriceAlerts_eq:
  "checkPriceAlerts e w =
     w\<lparr>users := fst (userLoop e 0 (stations w) (users w)),
       outbox := outbox w @ mails (fst (snd (userLoop e 0 (stations w) (users w)))),
       console := console w @ logs (fst (snd (userLoop e 0 (stations w) (users w)))) @
         [LogError ''Error checking price alerts:''
            (case snd (snd (userLoop e 0 (stations w) (users w))) of
               Some err \<Rightarrow> err
             | None \<Rightarrow> ReferenceError ''triggeredAlerts is not defined'')]\<rparr>"
  by (simp add: checkPriceAlerts_def afterLoop_def Let_def split: prod.splits option.splits)

lemma checkPriceAlerts_single:
  assumes "matchesQuery u" and "checkUser e 0 sts u = (u', fx, None)"
  shows "checkPriceAlerts e (store sts [u]) =
     \<lparr>stations = sts, users = [u'], outbox = mails fx,
      console = logs fx @ [LogError ''Error checking price alerts:''
                   (ReferenceError ''triggeredAlerts is not defined'')]\<rparr>"
  using assms
  by (simp add: checkPriceAlerts_eq store_def userLoop_Cons appendEffects_def noEffects_def
      del: userLoop.simps(2))

subsection \<open>The example user in a pass\<close>

lemma now_calm: "now calm = 100000000"
  by (simp add: calm_def quiet_def)

lemma now_stormy: "now stormy = now calm"
  by (simp add: stormy_def)

lemma matchesQuery_subscriber: "matchesQuery subscriber"
  by (simp add: matchesQuery_def subscriber_def dieselAlert_def)

lemma priceAlerts_subscriber: "priceAlerts subscriber = [dieselAlert]"
  by (simp add: subscriber_def)

lemma dieselAlert_fires:
  "checkAlert (now calm) [cheapDiesel] dieselAlert =
     (dieselAlert\<lparr>lastTriggered := Some (now calm)\<rparr>, [entryFor cheapDiesel dieselAlert 6.20])"
  by (rule checkAlert_fires [where st = cheapDiesel])
     (simp_all add: dieselAlert_def findStation_def cheapDiesel_def withPrice_def tene_def)

lemma subscriber_batch:
  "checkAlerts (now calm) [cheapDiesel] (priceAlerts subscriber) =
     ([dieselAlert\<lparr>lastTriggered := Some (now calm)\<rparr>], [entryFor cheapDiesel dieselAlert 6.20])"
  by (simp add: priceAlerts_subscriber checkAlerts_Cons dieselAlert_fires
      del: checkAlerts.simps(2))

subsection \<open>An alert that triggers\<close>




subsection \<open>The suppression window\<close>

text \<open>
  Claim C3. An alert whose \<open>lastTriggered\<close> is less than 24 hours before the instant of
  the evaluation pushes no entry and is left as it is by the loop body, whatever the
  stations and prices are; in the inner loop over a user's alerts it contributes
  nothing to the batch; and after the pass the stored alert at its place in the stored
  user is the alert as it was, whether or not the user was saved.
\<close>

theorem alert_suppressed:
  assumes "lastTriggered a = Some lt" and "now e - lt < oneDay"
    and "i < length (users w)" and "priceAlerts (users w ! i) = xs @ a # ys"
  shows "checkAlert (now e) sts a = (a, []) \<and>
    checkAlerts (now e) sts (xs @ a # ys) =
      (fst (checkAlerts (now e) sts xs) @ a # fst (checkAlerts (now e) sts ys),
       snd (checkAlerts (now e) sts xs) @ snd (checkAlerts (now e) sts ys)) \<and>
    priceAlerts (users (checkPriceAlerts e w) ! i) ! length xs = a"
proof -
  have one: "\<And>sts. checkAlert (now e) sts a = (a, [])"
    using assms(1,2) by (rule checkAlert_skips)
  have two: "\<And>sts. checkAlerts (now e) sts (xs @ a # ys) =
      (fst (checkAlerts (now e) sts xs) @ a # fst (checkAlerts (now e) sts ys),
       snd (checkAlerts (now e) sts xs) @ snd (checkAlerts (now e) sts ys))"
    by (simp add: checkAlerts_append [of _ _ xs "a # ys"] checkAlerts_Cons one
        del: checkAlerts.simps(2))
  have len: "length (fst (checkAlerts (now e) (stations w) xs)) = length xs"
    by (simp add: fst_checkAlerts)
  from users_nth_cases [OF assms(3), of e 0 "stations w"]
  have "priceAlerts (users (checkPriceAlerts e w) ! i) ! length xs = a"
  proof
    assume "fst (userLoop e 0 (stations w) (users w)) ! i = users w ! i"
    then show ?thesis by (simp add: users_checkPriceAlerts assms(4))
  next
    assume "fst (userLoop e 0 (stations w) (users w)) ! i =
      (users w ! i)\<lparr>priceAlerts :=
        fst (checkAlerts (now e) (stations w) (priceAlerts (users w ! i)))\<rparr>"
    then show ?thesis
      by (simp add: users_checkPriceAlerts assms(4) two nth_append len)
  qed
  with one two show ?thesis by simp
qed

text \<open>
  The alert triggered one hour before the pass, on the station whose diesel price 6.20
  is below its target 6.30.
\<close>

theorem alert_suppressed_witness:
  "lastTriggered recentAlert = Some 96400000 \<and> now calm - 96400000 < oneDay \<and>
   0 < length (users (store [cheapDiesel] [subscriber\<lparr>priceAlerts := [recentAlert]\<rparr>])) \<and>
   priceAlerts (users (store [cheapDiesel] [subscriber\<lparr>priceAlerts := [recentAlert]\<rparr>]) ! 0) =
     [] @ recentAlert # [] \<and>
   price (fuelOf (fuelType recentAlert) (fuelTypes cheapDiesel)) = Some 6.20 \<and>
   6.20 \<le> targetPrice recentAlert \<and>
   checkAlert (now calm) [cheapDiesel] recentAlert = (recentAlert, []) \<and>
   priceAlerts (users (checkPriceAlerts calm
      (store [cheapDiesel] [subscriber\<lparr>priceAlerts := [recentAlert]\<rparr>])) ! 0) ! 0 = recentAlert"
proof -
  have hyps: "lastTriggered recentAlert = Some 96400000" "now calm - 96400000 < oneDay"
    "0 < length (users (store [cheapDiesel] [subscriber\<lparr>priceAlerts := [recentAlert]\<rparr>]))"
    "priceAlerts (users (store [cheapDiesel] [subscriber\<lparr>priceAlerts := [recentAlert]\<rparr>]) ! 0) =
       [] @ recentAlert # []"
    by (simp_all add: recentAlert_def now_calm oneDay_def store_def)
  have more: "price (fuelOf (fuelType recentAlert) (fuelTypes cheapDiesel)) = Some 6.20"
    "6.20 \<le> targetPrice recentAlert"
    by (simp_all add: recentAlert_def dieselAlert_def cheapDiesel_def withPrice_def tene_def)
  from alert_suppressed [OF hyps, of "[cheapDiesel]"] hyps more
  show ?thesis by simp
qed

subsection \<open>A mail that cannot be sent\<close>

text \<open>
  Claim C8. For a user of the query's result with a non-empty batch whose mail cannot
  be sent: the Notifier catches the failure, writes it to the console and returns
  normally (no mail, one error line); the loop body then saves the user with the
  updated \<open>lastTriggered\<close> timestamps and throws nothing, so the loop goes on with
  the next user. In every pass, the users stored afterwards are the same whichever
  mails fail.
\<close>

theorem mail_failure_keeps_save:
  assumes "matchesQuery u"
    and "snd (checkAlerts (now e) sts (priceAlerts u)) \<noteq> []"
    and "mailFails e k" and "\<not> userSaveFails e k"
  shows "sendPriceAlertEmail (mailFails e k) u (snd (checkAlerts (now e) sts (priceAlerts u))) =
      \<lparr>mails = [], logs = [LogError ''Error sending price alert email:'' MailError]\<rparr> \<and>
    checkUser e k sts u =
      (u\<lparr>priceAlerts := fst (checkAlerts (now e) sts (priceAlerts u))\<rparr>,
       \<lparr>mails = [], logs = [LogError ''Error sending price alert email:'' MailError]\<rparr>, None) \<and>
    fst (userLoop e k sts (u # us)) =
      u\<lparr>priceAlerts := fst (checkAlerts (now e) sts (priceAlerts u))\<rparr> #
        fst (userLoop e (Suc k) sts us) \<and>
    snd (snd (userLoop e k sts (u # us))) = snd (snd (userLoop e (Suc k) sts us)) \<and>
    users (checkPriceAlerts (e\<lparr>mailFails := f\<rparr>) w) = users (checkPriceAlerts e w)"
proof -
  have sent: "sendPriceAlertEmail (mailFails e k) u (snd (checkAlerts (now e) sts (priceAlerts u))) =
      \<lparr>mails = [], logs = [LogError ''Error sending price alert email:'' MailError]\<rparr>"
    using assms(3) by (simp add: sendPriceAlertEmail_def)
  have body: "checkUser e k sts u =
      (u\<lparr>priceAlerts := fst (checkAlerts (now e) sts (priceAlerts u))\<rparr>,
       \<lparr>mails = [], logs = [LogError ''Error sending price alert email:'' MailError]\<rparr>, None)"
    using assms(2,4) sent by (simp add: checkUser_cases)
  have stored: "users (checkPriceAlerts (e\<lparr>mailFails := f\<rparr>) w) = users (checkPriceAlerts e w)"
    by (simp add: users_checkPriceAlerts userLoop_mail_stored)
  from sent body stored assms(1) show ?thesis
    unfolding userLoop_Cons by simp
qed

text \<open>
  The user whose alert triggers, with a transport that always fails: nothing is in the
  outbox, the failure is on the console, and the alert is stored with the instant of
  the pass.
\<close>

theorem mail_failure_keeps_save_witness:
  "matchesQuery subscriber \<and>
   snd (checkAlerts (now stormy) [cheapDiesel] (priceAlerts subscriber)) =
     [entryFor cheapDiesel dieselAlert 6.20] \<and>
   mailFails stormy 0 \<and> \<not> userSaveFails stormy 0 \<and>
   checkPriceAlerts stormy (store [cheapDiesel] [subscriber]) =
     \<lparr>stations = [cheapDiesel],
      users = [subscriber\<lparr>priceAlerts := [dieselAlert\<lparr>lastTriggered := Some (now calm)\<rparr>]\<rparr>],
      outbox = [],
      console = [LogError ''Error sending price alert email:'' MailError,
                 LogError ''Error checking price alerts:''
                   (ReferenceError ''triggeredAlerts is not defined'')]\<rparr>"
proof -
  have batch: "checkAlerts (now stormy) [cheapDiesel] (priceAlerts subscriber) =
      ([dieselAlert\<lparr>lastTriggered := Some (now calm)\<rparr>], [entryFor cheapDiesel dieselAlert 6.20])"
    by (simp add: now_stormy subscriber_batch)
  have hyps: "matchesQuery subscriber"
    "snd (checkAlerts (now stormy) [cheapDiesel] (priceAlerts subscriber)) \<noteq> []"
    "mailFails stormy 0" "\<not> userSaveFails stormy 0"
    by (simp_all add: matchesQuery_subscriber batch) (simp_all add: stormy_def calm_def quiet_def)
  from mail_failure_keeps_save [OF hyps]
  have "checkUser stormy 0 [cheapDiesel] subscriber =
      (subscriber\<lparr>priceAlerts := [dieselAlert\<lparr>lastTriggered := Some (now calm)\<rparr>]\<rparr>,
       \<lparr>mails = [], logs = [LogError ''Error sending price alert email:'' MailError]\<rparr>, None)"
    by (simp add: batch)
  from checkPriceAlerts_single [OF matchesQuery_subscriber this] hyps batch
  show ?thesis by simp
qed

subsection \<open>The statement after the loop\<close>

text \<open>
  Claim C10. Every call of checkPriceAlerts whose loop over the users runs to its end
  then throws the ReferenceError of reading \<open>triggeredAlerts\<close> outside the loop's
  block. The function's own handler catches it: the call returns normally, with the
  error as the last line of the console. By then the loop has done all its work, and
  the error changes none of it: the users stored are the evaluation of every user, the
  outbox and the console hold what the Notifier's calls left there. A caller that
  reached the call (scrapeFuelPrices after its own loop) ends with the state the call
  returns, its own handler not entered.
\<close>

theorem reference_error_after_loop:
  assumes "snd (snd (userLoop e 0 (stations w) (users w))) = None"
    and "snd (scrapeLoop e 0 (stations v)) = None"
  shows "checkPriceAlerts e w =
     w\<lparr>users := map (evalUser (now e) (stations w)) (users w),
       outbox := outbox w @ mails (notifications e 0 (stations w) (users w)),
       console := console w @ logs (notifications e 0 (stations w) (users w)) @
         [LogError ''Error checking price alerts:''
            (ReferenceError ''triggeredAlerts is not defined'')]\<rparr> \<and>
    scrapeFuelPrices e v =
      checkPriceAlerts e
        (v\<lparr>stations := fst (scrapeLoop e 0 (stations v)),
           console := console v @
             [LogInfo ''Starting fuel price scraping...'',
              LogCount ''Updated prices for stations:'' (length (filter isActive (stations v)))]\<rparr>)"
proof -
  have callee: "checkPriceAlerts e w =
     w\<lparr>users := map (evalUser (now e) (stations w)) (users w),
       outbox := outbox w @ mails (notifications e 0 (stations w) (users w)),
       console := console w @ logs (notifications e 0 (stations w) (users w)) @
         [LogError ''Error checking price alerts:''
            (ReferenceError ''triggeredAlerts is not defined'')]\<rparr>"
    using assms(1) userLoop_complete [OF assms(1)] userLoop_notifications [OF assms(1)]
    by (simp add: checkPriceAlerts_eq)
  have caller: "scrapeFuelPrices e v =
      checkPriceAlerts e
        (v\<lparr>stations := fst (scrapeLoop e 0 (stations v)),
           console := console v @
             [LogInfo ''Starting fuel price scraping...'',
              LogCount ''Updated prices for stations:'' (length (filter isActive (stations v)))]\<rparr>)"
    using assms(2) by (cases "scrapeLoop e 0 (stations v)") (simp add: scrapeFuelPrices_def Let_def)
  from callee caller show ?thesis by simp
qed

text \<open>The pass over the user whose alert triggers, and a pass over no user at all.\<close>

theorem reference_error_after_loop_witness:
  "snd (snd (userLoop calm 0 (stations (store [cheapDiesel] [subscriber]))
      (users (store [cheapDiesel] [subscriber])))) = None \<and>
   snd (scrapeLoop calm 0 (stations (store [] []))) = None \<and>
   checkPriceAlerts calm (store [cheapDiesel] [subscriber]) =
     \<lparr>stations = [cheapDiesel],
      users = [subscriber\<lparr>priceAlerts := [dieselAlert\<lparr>lastTriggered := Some (now calm)\<rparr>]\<rparr>],
      outbox = [\<lparr>mailTo = email subscriber,
                 mailAlerts = [entryFor cheapDiesel dieselAlert 6.20]\<rparr>],
      console = [LogInfo (''Price alert email sent to '' @ email subscriber),
                 LogError ''Error checking price alerts:''
                   (ReferenceError ''triggeredAlerts is not defined'')]\<rparr> \<and>
   scrapeFuelPrices calm (store [] []) =
     \<lparr>stations = [], users = [], outbox = [],
      console = [LogInfo ''Starting fuel price scraping...'',
                 LogCount ''Updated prices for stations:'' 0,
                 LogError ''Error checking price alerts:''
                   (ReferenceError ''triggeredAlerts is not defined'')]\<rparr>"
proof -
  have complete: "snd (snd (userLoop calm 0 (stations (store [cheapDiesel] [subscriber]))
      (users (store [cheapDiesel] [subscriber])))) = None"
    by (rule userLoop_no_save_failure) (simp add: calm_def quiet_def)
  have reached: "snd (scrapeLoop calm 0 (stations (store [] []))) = None"
    by (simp add: store_def)
  have ok: "\<not> mailFails calm 0" by (simp add: calm_def quiet_def)
  have empty: "checkPriceAlerts calm
      \<lparr>stations = [], users = [], outbox = [],
       console = [LogInfo ''Starting fuel price scraping...'',
                  LogCount ''Updated prices for stations:'' 0]\<rparr> =
     \<lparr>stations = [], users = [], outbox = [],
      console = [LogInfo ''Starting fuel price scraping...'',
                 LogCount ''Updated prices for stations:'' 0,
                 LogError ''Error checking price alerts:''
                   (ReferenceError ''triggeredAlerts is not defined'')]\<rparr>"
    by (simp add: checkPriceAlerts_eq noEffects_def)
  from reference_error_after_loop [OF complete reached] complete reached
  show ?thesis
    by (simp add: store_def evalUser_def matchesQuery_subscriber subscriber_batch ok
        sendPriceAlertEmail_def empty)
qed


section \<open>The HTTP handlers\<close>

subsection \<open>Lookups and saves\<close>

lemma find_holds: "find P xs = Some x \<Longrightarrow> P x"
  by (induction xs) (auto split: if_splits)

lemma saveUser_same: "findUser i us = Some u \<Longrightarrow> saveUser u us = us"
  unfolding findUser_def
proof (induction us)
  case Nil
  then show ?case by simp
next
  case (Cons x xs)
  from find_holds [OF Cons.prems] have "user_id u = i" .
  with Cons show ?case by (auto split: if_splits)
qed

lemma saveStation_found:
  "findStation i sts = Some s \<Longrightarrow> station_id s' = i \<Longrightarrow>
   findStation i (saveStation s' sts) = Some s'"
  unfolding findStation_def
  by (induction sts) (auto split: if_splits)

lemma filter_unmatched:
  "find (\<lambda>a. sameText (alert_id a) param) as = None \<Longrightarrow>
   filter (\<lambda>a. \<not> sameText (alert_id a) param) as = as"
  by (induction as) (auto split: if_splits)

lemma filter_not_favorite:
  "\<not> list_ex (\<lambda>i. sameText i param) favs \<Longrightarrow> filter (\<lambda>i. \<not> sameText i param) favs = favs"
  by (induction favs) auto

lemma fuelKey_keyOf: "fuelKey (keyOf ft) = Some ft"
  by (cases ft) (simp_all add: fuelKey_def keyOf_def)

lemma fuelOf_setFuel: "fuelOf ft (setFuel ft f fts) = f"
  by (cases ft) simp_all

subsection \<open>A reference to an absent station or alert\<close>

text \<open>
  Claim C5, as amended. The handlers that look the referenced entity up answer 404 and
  change nothing when it is absent: GET and PUT /api/stations/:id for an id that casts
  to an ObjectId no station has, POST /api/users/favorites and POST /api/users/alerts
  (with a body that passes validation) for a stationId no station has, and, for a
  requesting user who exists, PUT /api/users/alerts/:alertId (with a body that passes
  validation) for an id that is the id of no alert of the user. An :id that does not
  cast to an ObjectId makes the lookup of GET and PUT /api/stations/:id throw, and is
  answered 500. The two DELETE handlers do not look the entity up: for a requesting
  user who exists, DELETE /api/users/alerts/:alertId always answers 200, and changes
  nothing when the id matches no alert of the user; DELETE
  /api/users/favorites/:stationId always answers 200, whether or not the station
  exists, and changes nothing when the id matches no favorite of the user.
\<close>

theorem absent_reference_responses:
  "(findStation sid (stations w) = None \<longrightarrow>
      get_station (IdText sid spelled) w = (\<lparr>status = 404, message = ''Station not found''\<rparr>, w) \<and>
      put_station t (IdText sid spelled) body w =
        (\<lparr>status = 404, message = ''Station not found''\<rparr>, w) \<and>
      post_favorites uid (Given sid) w = (\<lparr>status = 404, message = ''Station not found''\<rparr>, w) \<and>
      post_alerts nid uid
          \<lparr>bodyStationId = Given sid, bodyFuelType = Given ft, bodyTargetPrice = Given p\<rparr> w =
        (\<lparr>status = 404, message = ''Station not found''\<rparr>, w)) \<and>
   status (fst (get_station NotAnId w)) = 500 \<and>
   status (fst (put_station t NotAnId body w)) = 500 \<and>
   (findUser uid (users w) = Some u \<longrightarrow>
      (bodyTarget \<noteq> Malformed \<and> bodyActive \<noteq> Malformed \<and>
       alertById alertParam (priceAlerts u) = None \<longrightarrow>
         put_alert uid alertParam bodyTarget bodyActive w =
           (\<lparr>status = 404, message = ''Alert not found''\<rparr>, w)) \<and>
      status (fst (delete_alert uid alertParam w)) = 200 \<and>
      (find (\<lambda>a. sameText (alert_id a) alertParam) (priceAlerts u) = None \<longrightarrow>
         delete_alert uid alertParam w =
           (\<lparr>status = 200, message = ''Price alert deleted successfully''\<rparr>, w)) \<and>
      status (fst (delete_favorite uid stationParam w)) = 200 \<and>
      (\<not> list_ex (\<lambda>i. sameText i stationParam) (favoriteStations u) \<longrightarrow>
         delete_favorite uid stationParam w =
           (\<lparr>status = 200, message = ''Station removed from favorites''\<rparr>, w)))"
  by (simp add: get_station_def put_station_def post_favorites_def post_alerts_def put_alert_def
      delete_alert_def delete_favorite_def serverError_def filter_unmatched filter_not_favorite
      saveUser_same)

text \<open>
  The store with the example station (id 5) and the example user (id 10, one alert
  with id 20, no favorite): no station has the id 99, no alert has the id 77, and the
  station 5, which exists, is not a favorite.
\<close>

theorem absent_reference_responses_witness:
  "findStation 99 (stations (store [tene] [subscriber])) = None \<and>
   findUser 10 (users (store [tene] [subscriber])) = Some subscriber \<and>
   alertById (IdText 77 True) (priceAlerts subscriber) = None \<and>
   find (\<lambda>a. sameText (alert_id a) (IdText 77 True)) (priceAlerts subscriber) = None \<and>
   \<not> list_ex (\<lambda>i. sameText i (IdText 5 True)) (favoriteStations subscriber) \<and>
   findStation 5 (stations (store [tene] [subscriber])) = Some tene \<and>
   status (fst (get_station (IdText 99 True) (store [tene] [subscriber]))) = 404 \<and>
   status (fst (put_station 9000 (IdText 99 True) None (store [tene] [subscriber]))) = 404 \<and>
   status (fst (post_favorites 10 (Given 99) (store [tene] [subscriber]))) = 404 \<and>
   status (fst (post_alerts 21 10
        \<lparr>bodyStationId = Given 99, bodyFuelType = Given Diesel, bodyTargetPrice = Given 6.30\<rparr>
        (store [tene] [subscriber]))) = 404 \<and>
   status (fst (get_station NotAnId (store [tene] [subscriber]))) = 500 \<and>
   status (fst (put_alert 10 (IdText 77 True) (Given 6.10) Missing (store [tene] [subscriber]))) = 404 \<and>
   delete_alert 10 (IdText 77 True) (store [tene] [subscriber]) =
     (\<lparr>status = 200, message = ''Price alert deleted successfully''\<rparr>, store [tene] [subscriber]) \<and>
   delete_favorite 10 (IdText 5 True) (store [tene] [subscriber]) =
     (\<lparr>status = 200, message = ''Station removed from favorites''\<rparr>, store [tene] [subscriber])"
proof -
  have hyps: "findStation 99 (stations (store [tene] [subscriber])) = None"
    "findUser 10 (users (store [tene] [subscriber])) = Some subscriber"
    "alertById (IdText 77 True) (priceAlerts subscriber) = None"
    "find (\<lambda>a. sameText (alert_id a) (IdText 77 True)) (priceAlerts subscriber) = None"
    "\<not> list_ex (\<lambda>i. sameText i (IdText 5 True)) (favoriteStations subscriber)"
    "findStation 5 (stations (store [tene] [subscriber])) = Some tene"
    "Given (6.10::real) \<noteq> Malformed" "(Missing :: bool field) \<noteq> Malformed"
    by (simp_all add: findStation_def findUser_def alertById_def store_def tene_def
        subscriber_def dieselAlert_def)
  from absent_reference_responses [of 99 "store [tene] [subscriber]" True 9000 None 10 21 Diesel
      "6.30" subscriber "Given 6.10" Missing "IdText 77 True" "IdText 5 True"] hyps
  show ?thesis by simp
qed

text \<open>
  The claim as stated fails for the DELETE of an alert: the user has no alert with the
  id 77, and the answer is 200.
\<close>

theorem delete_absent_alert_counterexample:
  "findUser 10 (users (store [tene] [subscriber])) = Some subscriber \<and>
   find (\<lambda>a. alert_id a = 77) (priceAlerts subscriber) = None \<and>
   status (fst (delete_alert 10 (IdText 77 True) (store [tene] [subscriber]))) = 200"
  by (simp add: delete_alert_def findUser_def store_def subscriber_def dieselAlert_def)

subsection \<open>The update endpoint and the floors\<close>

text \<open>
  Claim C6. PUT /api/stations/:id on an existing station (its id spelled in any way
  that casts to it), with a body that gives one fuel type a price that is not zero and
  is strictly below that fuel type's floor, answers 200, and the station stored
  afterwards carries that price, below the floor, with the fuel type's
  \<open>lastUpdated\<close> and the station's \<open>lastScraped\<close> set to the instant of the
  request.
\<close>

theorem put_station_below_floor:
  assumes "findStation i (stations w) = Some s" and "p \<noteq> 0" and "p < floorOf ft"
  shows "status (fst (put_station t (IdText i spelled) (Some [(keyOf ft, Some p)]) w)) = 200 \<and>
    findStation i
        (stations (snd (put_station t (IdText i spelled) (Some [(keyOf ft, Some p)]) w))) =
      Some (s\<lparr>fuelTypes := setFuel ft \<lparr>price = Some p, lastUpdated = Some t\<rparr> (fuelTypes s),
              lastScraped := Some t\<rparr>) \<and>
    fuelOf ft (fuelTypes (s\<lparr>fuelTypes :=
        setFuel ft \<lparr>price = Some p, lastUpdated = Some t\<rparr> (fuelTypes s),
        lastScraped := Some t\<rparr>)) = \<lparr>price = Some p, lastUpdated = Some t\<rparr> \<and>
    p < floorOf ft"
proof -
  from assms(1) have "station_id s = i"
    unfolding findStation_def by (rule find_holds)
  with assms show ?thesis
    by (simp add: put_station_def putFuel_def fuelKey_keyOf fuelOf_setFuel saveStation_found)
qed

text \<open>The request of the claim: gasoline95 at 1.0 on the example station.\<close>

theorem put_station_below_floor_witness:
  "findStation 5 (stations (store [tene] [])) = Some tene \<and> (1::real) \<noteq> 0 \<and>
   1 < floorOf Gasoline95 \<and>
   put_station 9000 (IdText 5 True) (Some [(''gasoline95'', Some 1)]) (store [tene] []) =
     (\<lparr>status = 200, message = ''Station updated successfully''\<rparr>,
      store [tene\<lparr>fuelTypes := (fuelTypes tene)\<lparr>gasoline95 := \<lparr>price = Some 1, lastUpdated = Some 9000\<rparr>\<rparr>,
                  lastScraped := Some 9000\<rparr>] [])"
proof -
  have hyps: "findStation 5 (stations (store [tene] [])) = Some tene" "(1::real) \<noteq> 0"
    "1 < floorOf Gasoline95"
    by (simp_all add: findStation_def store_def tene_def floorOf_def)
  have "put_station 9000 (IdText 5 True) (Some [(''gasoline95'', Some 1)]) (store [tene] []) =
     (\<lparr>status = 200, message = ''Station updated successfully''\<rparr>,
      store [tene\<lparr>fuelTypes := (fuelTypes tene)\<lparr>gasoline95 := \<lparr>price = Some 1, lastUpdated = Some 9000\<rparr>\<rparr>,
                  lastScraped := Some 9000\<rparr>] [])"
    by (simp add: put_station_def putFuel_def fuelKey_def findStation_def store_def tene_def)
  with put_station_below_floor [OF hyps, of 9000 True] hyps show ?thesis by simp
qed

subsection \<open>An alert for a station that does not exist\<close>

text \<open>
  Claim C7, as amended. For every request to POST /api/users/alerts whose stationId
  does not resolve to an existing station, the stores are left as they were (so the
  user's alert list is unchanged); the status is 404 when the body passes validation
  (a well-formed station id, one of the three fuel types, a numeric target price) and
  400 when it does not.
\<close>

theorem post_alerts_unresolved:
  assumes "\<not> resolves body w"
  shows "snd (post_alerts nid uid body w) = w \<and>
    status (fst (post_alerts nid uid body w)) = (if validBody body then 404 else 400)"
  using assms
  by (auto simp add: post_alerts_def resolves_def validBody_def split: field.splits)

theorem post_alerts_unresolved_witness:
  "\<not> resolves \<lparr>bodyStationId = Given 99, bodyFuelType = Given Diesel, bodyTargetPrice = Given 6.30\<rparr>
       (store [tene] [subscriber]) \<and>
   validBody \<lparr>bodyStationId = Given 99, bodyFuelType = Given Diesel, bodyTargetPrice = Given 6.30\<rparr> \<and>
   post_alerts 21 10
       \<lparr>bodyStationId = Given 99, bodyFuelType = Given Diesel, bodyTargetPrice = Given 6.30\<rparr>
       (store [tene] [subscriber]) =
     (\<lparr>status = 404, message = ''Station not found''\<rparr>, store [tene] [subscriber])"
proof -
  have hyp: "\<not> resolves \<lparr>bodyStationId = Given 99, bodyFuelType = Given Diesel, bodyTargetPrice = Given 6.30\<rparr>
       (store [tene] [subscriber])"
    by (simp add: resolves_def findStation_def store_def tene_def)
  have "post_alerts 21 10
       \<lparr>bodyStationId = Given 99, bodyFuelType = Given Diesel, bodyTargetPrice = Given 6.30\<rparr>
       (store [tene] [subscriber]) =
     (\<lparr>status = 404, message = ''Station not found''\<rparr>, store [tene] [subscriber])"
    by (simp add: post_alerts_def findStation_def store_def tene_def)
  with post_alerts_unresolved [OF hyp, of 21 10] hyp show ?thesis
    by (simp add: validBody_def)
qed

text \<open>
  The claim as stated fails for a request that validation refuses: the station id 99
  resolves to no station, the fuel type is not one of the three, and the answer is
  400.
\<close>

theorem post_alerts_invalid_counterexample:
  "\<not> resolves \<lparr>bodyStationId = Given 99, bodyFuelType = Malformed, bodyTargetPrice = Given 6.30\<rparr>
       (store [tene] [subscriber]) \<and>
   status (fst (post_alerts 21 10
       \<lparr>bodyStationId = Given 99, bodyFuelType = Malformed, bodyTargetPrice = Given 6.30\<rparr>
       (store [tene] [subscriber]))) = 400"
  by (simp add: post_alerts_def resolves_def findStation_def store_def tene_def)

end
